theory Spec2Isabelle
  imports Complex_Main
begin

section \<open>JavaScript values\<close>

text \<open>
  The servers are JavaScript programs that build object literals and hand them to
  \<^verbatim>\<open>res.json\<close>. A number is a finite value (kept exact, as a rational), NaN or an
  infinity; the only arithmetic the handlers do on numbers is a subtraction inside a
  comparator, one division, and \<^verbatim>\<open>Math.floor(Math.random() * n) + k\<close>.
  An object is an association list in insertion order.
\<close>

datatype jsnum = Fin rat | NaN | PosInfinity | NegInfinity

datatype jsval =
    JUndefined
  | JNull
  | JBool bool
  | JNum jsnum
  | JStr string
  | JArr "jsval list"
  | JObj "(string \<times> jsval) list"

type_synonym jsobj = "(string \<times> jsval) list"

text \<open>A thrown \<^verbatim>\<open>Error\<close> (or TypeError, SyntaxError): only its message is ever read.\<close>

datatype js_error = Error string

fun error_message :: "js_error \<Rightarrow> string" where
  "error_message (Error m) = m"

fun truthy :: "jsval \<Rightarrow> bool" where
  "truthy JUndefined = False"
| "truthy JNull = False"
| "truthy (JBool b) = b"
| "truthy (JNum (Fin r)) = (r \<noteq> 0)"
| "truthy (JNum NaN) = False"
| "truthy (JNum PosInfinity) = True"
| "truthy (JNum NegInfinity) = True"
| "truthy (JStr s) = (s \<noteq> [])"
| "truthy (JArr xs) = True"
| "truthy (JObj kvs) = True"

text \<open>\<^verbatim>\<open>a || b\<close>\<close>

definition js_or :: "jsval \<Rightarrow> jsval \<Rightarrow> jsval" where
  "js_or a b = (if truthy a then a else b)"

text \<open>A destructuring default \<^verbatim>\<open>{ x = d } = obj\<close> applies only when the field is undefined.\<close>

definition default_to :: "jsval \<Rightarrow> jsval \<Rightarrow> jsval" where
  "default_to v d = (if v = JUndefined then d else v)"

text \<open>Reading a field of a known object: a missing field is \<^verbatim>\<open>undefined\<close>.\<close>

definition field :: "jsobj \<Rightarrow> string \<Rightarrow> jsval" where
  "field obj k = (case map_of obj k of None \<Rightarrow> JUndefined | Some v \<Rightarrow> v)"

text \<open>
  \<^verbatim>\<open>v.k\<close> on a value of unknown shape: a TypeError on \<^verbatim>\<open>undefined\<close> and \<^verbatim>\<open>null\<close>,
  the field on an object, \<^verbatim>\<open>undefined\<close> on every other value (the keys the servers read
  are never \<^verbatim>\<open>length\<close> or an index).
\<close>

fun get_prop :: "jsval \<Rightarrow> string \<Rightarrow> js_error + jsval" where
  "get_prop JUndefined k =
     Inl (Error (''Cannot read properties of undefined (reading '' @ k @ '')''))"
| "get_prop JNull k =
     Inl (Error (''Cannot read properties of null (reading '' @ k @ '')''))"
| "get_prop (JObj kvs) k = Inr (field kvs k)"
| "get_prop v k = Inr JUndefined"

text \<open>\<^verbatim>\<open>v?.k\<close>\<close>

fun opt_prop :: "jsval \<Rightarrow> string \<Rightarrow> jsval" where
  "opt_prop (JObj kvs) k = field kvs k"
| "opt_prop v k = JUndefined"

text \<open>\<^verbatim>\<open>obj.k = v\<close>, and a later key of an object literal: replace in place or append.\<close>

primrec set_field :: "string \<Rightarrow> jsval \<Rightarrow> jsobj \<Rightarrow> jsobj" where
  "set_field k v [] = [(k, v)]"
| "set_field k v (p # ps) = (if fst p = k then (k, v) # ps else p # set_field k v ps)"

text \<open>Decimal rendering of a natural number, as template literals and index keys need it.\<close>

definition digit :: "nat \<Rightarrow> char" where
  "digit d = ''0123456789'' ! (d mod 10)"

function dec :: "nat \<Rightarrow> string" where
  "dec n = (if n < 10 then [digit n] else dec (n div 10) @ [digit (n mod 10)])"
  by pat_completeness auto
termination
  by (relation "measure (\<lambda>n. n)") auto

declare dec.simps [simp del]


text \<open>\<^verbatim>\<open>{...v}\<close>: the own enumerable properties of \<open>v\<close>.\<close>

fun spread :: "jsval \<Rightarrow> jsobj" where
  "spread (JObj kvs) = kvs"
| "spread (JArr xs) = zip (map dec [0..<length xs]) xs"
| "spread (JStr s) = zip (map dec [0..<length s]) (map (\<lambda>c. JStr [c]) s)"
| "spread v = []"


fun json_number :: "jsnum \<Rightarrow> jsval" where
  "json_number (Fin r) = JNum (Fin r)"
| "json_number n = JNull"

text \<open>Division of two finite numbers.\<close>

definition js_div :: "rat \<Rightarrow> rat \<Rightarrow> jsnum" where
  "js_div a b =
     (if b \<noteq> 0 then Fin (a / b)
      else if a = 0 then NaN
      else if 0 < a then PosInfinity else NegInfinity)"

text \<open>
  \<^verbatim>\<open>Array.prototype.sort(cmp)\<close>: the sort is stable, and for a comparator that is a
  consistent ordering its result is the stable insertion of the elements from left to right:
  an element goes before the first one it compares below.
\<close>

fun insert_by :: "('a \<Rightarrow> 'a \<Rightarrow> rat) \<Rightarrow> 'a \<Rightarrow> 'a list \<Rightarrow> 'a list" where
  "insert_by cmp x [] = [x]"
| "insert_by cmp x (y # ys) = (if cmp x y < 0 then x # y # ys else y # insert_by cmp x ys)"

definition js_sort :: "('a \<Rightarrow> 'a \<Rightarrow> rat) \<Rightarrow> 'a list \<Rightarrow> 'a list" where
  "js_sort cmp xs = foldl (\<lambda>acc x. insert_by cmp x acc) [] xs"

section \<open>GET /api/issues\<close>

text \<open>
  The issue literals of the two servers that sort. The advanced server's issues have no
  \<^verbatim>\<open>cloud_function_analysis\<close> field (\<open>None\<close>). The field \<^verbatim>\<open>file\<close> of the source
  is \<open>issue_file\<close> here.
\<close>

record issue =
  type :: string
  severity :: string
  issue_file :: string
  line :: nat
  message :: string
  rule :: string
  suggestion :: string
  ai_detected :: bool
  confidence :: rat
  ai_model :: string
  cloud_function_analysis :: "bool option"
  remediation_priority :: int

text \<open>
  A query parameter as Express parses it: absent, a string, or an array or nested object
  (a repeated or bracketed parameter), which is truthy and strictly equal to no string.
\<close>

datatype qparam = QAbsent | QString string | QOther

fun q_truthy :: "qparam \<Rightarrow> bool" where
  "q_truthy QAbsent = False"
| "q_truthy (QString s) = (s \<noteq> [])"
| "q_truthy QOther = True"

record issues_query =
  q_type :: qparam
  q_severity :: qparam
  q_ai_only :: qparam
  q_cloud_function_only :: qparam

record issues_metadata =
  total_issues :: nat
  ai_detected_issues :: nat
  cloud_function_issues :: "nat option"
  avg_confidence :: jsnum
  high_confidence_issues :: nat

record issues_response =
  issues :: "issue list"
  metadata :: issues_metadata

text \<open>\<^verbatim>\<open>(x.confidence || 0)\<close>\<close>

definition confidence_or_0 :: "issue \<Rightarrow> rat" where
  "confidence_or_0 i = (if confidence i \<noteq> 0 then confidence i else 0)"

text \<open>The comparator passed to \<^verbatim>\<open>filteredIssues.sort\<close>.\<close>

definition compare_issues :: "issue \<Rightarrow> issue \<Rightarrow> rat" where
  "compare_issues a b =
     (if remediation_priority a \<noteq> remediation_priority b
      then of_int (remediation_priority a - remediation_priority b)
      else confidence_or_0 b - confidence_or_0 a)"

definition filter_by_type :: "qparam \<Rightarrow> issue list \<Rightarrow> issue list" where
  "filter_by_type t xs = (if q_truthy t then filter (\<lambda>i. QString (type i) = t) xs else xs)"

definition filter_by_severity :: "qparam \<Rightarrow> issue list \<Rightarrow> issue list" where
  "filter_by_severity s xs =
     (if q_truthy s then filter (\<lambda>i. QString (severity i) = s) xs else xs)"

definition filter_ai_only :: "qparam \<Rightarrow> issue list \<Rightarrow> issue list" where
  "filter_ai_only a xs = (if a = QString ''true'' then filter ai_detected xs else xs)"

definition filter_cloud_function_only :: "qparam \<Rightarrow> issue list \<Rightarrow> issue list" where
  "filter_cloud_function_only c xs =
     (if c = QString ''true'' then filter (\<lambda>i. cloud_function_analysis i = Some True) xs
      else xs)"

text \<open>The server with Cloud Function integration.\<close>

definition enhanced_issues :: "issue list" where
  "enhanced_issues =
    [\<lparr>type = ''security'', severity = ''critical'', issue_file = ''auth/login.py'', line = 42,
      message = ''SQL injection vulnerability detected by Cloud Function AI'',
      rule = ''CF-SEC-001'',
      suggestion = ''Use parameterized queries. Cloud Function analysis shows 97% confidence this is exploitable.'',
      ai_detected = True, confidence = 97 / 100, ai_model = ''vertex-ai-cloud-function'',
      cloud_function_analysis = Some True, remediation_priority = 1\<rparr>,
     \<lparr>type = ''quality'', severity = ''high'', issue_file = ''utils/helpers.py'', line = 128,
      message = ''High cyclomatic complexity detected across repository context'',
      rule = ''CF-QUAL-002'',
      suggestion = ''Cloud Function AI recommends refactoring based on repository-wide analysis'',
      ai_detected = True, confidence = 91 / 100, ai_model = ''vertex-ai-cloud-function'',
      cloud_function_analysis = Some True, remediation_priority = 2\<rparr>,
     \<lparr>type = ''performance'', severity = ''medium'', issue_file = ''api/endpoints.py'', line = 67,
      message = ''Repository-wide performance pattern analysis reveals bottleneck'',
      rule = ''CF-PERF-003'',
      suggestion = ''Cloud Function detected similar patterns in 3 other files - implement caching strategy'',
      ai_detected = True, confidence = 88 / 100, ai_model = ''vertex-ai-cloud-function'',
      cloud_function_analysis = Some True, remediation_priority = 3\<rparr>,
     \<lparr>type = ''security'', severity = ''high'', issue_file = ''config/settings.py'', line = 15,
      message = ''Hardcoded secrets detected by multi-file AI analysis'',
      rule = ''CF-SEC-004'',
      suggestion = ''Cloud Function found 5 similar patterns across repository - implement secret management'',
      ai_detected = True, confidence = 93 / 100, ai_model = ''vertex-ai-cloud-function'',
      cloud_function_analysis = Some True, remediation_priority = 1\<rparr>]"

definition enhanced_filtered :: "issues_query \<Rightarrow> issue list" where
  "enhanced_filtered q =
     filter_cloud_function_only (q_cloud_function_only q)
       (filter_ai_only (q_ai_only q)
         (filter_by_severity (q_severity q)
           (filter_by_type (q_type q) enhanced_issues)))"

definition sum_confidence :: "issue list \<Rightarrow> rat" where
  "sum_confidence xs = foldl (\<lambda>sum i. sum + confidence_or_0 i) 0 xs"

definition get_issues_enhanced :: "issues_query \<Rightarrow> issues_response" where
  "get_issues_enhanced q =
     (let filteredIssues = js_sort compare_issues (enhanced_filtered q)
      in \<lparr>issues = filteredIssues,
          metadata =
            \<lparr>total_issues = length filteredIssues,
             ai_detected_issues = length (filter ai_detected filteredIssues),
             cloud_function_issues =
               Some (length (filter (\<lambda>i. cloud_function_analysis i = Some True) filteredIssues)),
             avg_confidence =
               js_div (sum_confidence filteredIssues) (of_nat (length filteredIssues)),
             high_confidence_issues =
               length (filter (\<lambda>i. 9 / 10 < confidence_or_0 i) filteredIssues)\<rparr>\<rparr>)"

text \<open>The server with the advanced AI service: three filters, no Cloud Function count.\<close>

definition advanced_issues :: "issue list" where
  "advanced_issues =
    [\<lparr>type = ''security'', severity = ''critical'', issue_file = ''auth/login.py'', line = 42,
      message = ''SQL injection vulnerability detected by AI analysis'',
      rule = ''AI-SEC-001'',
      suggestion = ''Use parameterized queries. AI detected 95% confidence this is exploitable.'',
      ai_detected = True, confidence = 95 / 100, ai_model = ''vertex-ai-security-scanner'',
      cloud_function_analysis = None, remediation_priority = 1\<rparr>,
     \<lparr>type = ''quality'', severity = ''high'', issue_file = ''utils/helpers.py'', line = 128,
      message = ''High cyclomatic complexity detected (CC: 18)'',
      rule = ''AI-QUAL-002'',
      suggestion = ''AI recommends breaking this function into 3 smaller functions'',
      ai_detected = True, confidence = 89 / 100, ai_model = ''vertex-ai-code-quality'',
      cloud_function_analysis = None, remediation_priority = 2\<rparr>,
     \<lparr>type = ''performance'', severity = ''medium'', issue_file = ''api/endpoints.py'', line = 67,
      message = ''Potential N+1 query pattern detected'',
      rule = ''AI-PERF-003'',
      suggestion = ''AI suggests implementing query batching or eager loading'',
      ai_detected = True, confidence = 82 / 100, ai_model = ''vertex-ai-performance'',
      cloud_function_analysis = None, remediation_priority = 3\<rparr>,
     \<lparr>type = ''security'', severity = ''high'', issue_file = ''config/settings.py'', line = 15,
      message = ''Hardcoded API key detected by AI pattern recognition'',
      rule = ''AI-SEC-004'',
      suggestion = ''Move to environment variables. AI found similar patterns in 3 other files.'',
      ai_detected = True, confidence = 91 / 100, ai_model = ''vertex-ai-secret-scanner'',
      cloud_function_analysis = None, remediation_priority = 1\<rparr>]"

definition advanced_filtered :: "issues_query \<Rightarrow> issue list" where
  "advanced_filtered q =
     filter_ai_only (q_ai_only q)
       (filter_by_severity (q_severity q)
         (filter_by_type (q_type q) advanced_issues))"

definition get_issues_advanced :: "issues_query \<Rightarrow> issues_response" where
  "get_issues_advanced q =
     (let filteredIssues = js_sort compare_issues (advanced_filtered q)
      in \<lparr>issues = filteredIssues,
          metadata =
            \<lparr>total_issues = length filteredIssues,
             ai_detected_issues = length (filter ai_detected filteredIssues),
             cloud_function_issues = None,
             avg_confidence =
               js_div (sum_confidence filteredIssues) (of_nat (length filteredIssues)),
             high_confidence_issues =
               length (filter (\<lambda>i. 9 / 10 < confidence_or_0 i) filteredIssues)\<rparr>\<rparr>)"

text \<open>The order the sort is meant to establish.\<close>

definition issue_before :: "issue \<Rightarrow> issue \<Rightarrow> bool" where
  "issue_before a b =
     (remediation_priority a < remediation_priority b \<or>
      remediation_priority a = remediation_priority b \<and> confidence b \<le> confidence a)"

section \<open>The world outside the server\<close>

text \<open>
  Everything a handler reads from outside or does to the outside goes through a \<open>world\<close>
  that is passed along: the environment variables, the successive results of
  \<^verbatim>\<open>Math.random()\<close>, the successive readings of the clock, what each \<^verbatim>\<open>fetch\<close> and
  each spawned child process does, and the log of the backend calls made so far.

  A \<^verbatim>\<open>fetch\<close> rejects (a network error) or yields a response with a status, a status
  text and a body that \<^verbatim>\<open>response.json()\<close> parses or rejects. A child process either
  makes \<^verbatim>\<open>spawn\<close> throw or closes with an exit status (none when a signal killed it) and
  the standard output collected until then. A child may also emit \<^verbatim>\<open>error\<close>; only
  \<^verbatim>\<open>AIAnalysisService\<close> registers a listener for it, and what the runtime does with an
  \<^verbatim>\<open>error\<close> event nobody listens to is not part of this model.
\<close>

datatype fetch_outcome = NetworkError string | HttpReply nat string "string + jsval"

datatype proc_outcome = SpawnThrows string | Closed "int option" string

datatype effect = Fetch string jsval | Spawn string "jsval list"

record world =
  CLOUD_FUNCTION_URL :: "string option"
  GOOGLE_APPLICATION_CREDENTIALS :: "string option"
  random_values :: "nat \<Rightarrow> rat"
  random_ix :: nat
  clock_ms :: "nat \<Rightarrow> nat"
  clock_iso :: "nat \<Rightarrow> string"
  clock_ix :: nat
  fetch_replies :: "nat \<Rightarrow> fetch_outcome"
  fetch_ix :: nat
  spawn_replies :: "nat \<Rightarrow> proc_outcome"
  error_events :: "nat \<Rightarrow> string option"
  spawn_ix :: nat
  JSON_parse :: "string \<Rightarrow> jsval option"
  calls :: "effect list"

text \<open>An environment variable is truthy when it is set to a non-empty string.\<close>

definition env_set :: "string option \<Rightarrow> bool" where
  "env_set v = (case v of None \<Rightarrow> False | Some s \<Rightarrow> s \<noteq> [])"

definition response_ok :: "nat \<Rightarrow> bool" where
  "response_ok st = (200 \<le> st \<and> st \<le> 299)"

definition Math_random :: "world \<Rightarrow> rat \<times> world" where
  "Math_random w = (random_values w (random_ix w), w\<lparr>random_ix := Suc (random_ix w)\<rparr>)"

text \<open>\<^verbatim>\<open>Math.floor(Math.random() * n) + k\<close>\<close>

definition random_int :: "nat \<Rightarrow> nat \<Rightarrow> world \<Rightarrow> jsval \<times> world" where
  "random_int n k w =
     (let (r, w') = Math_random w
      in (JNum (Fin (of_int \<lfloor>r * of_nat n\<rfloor> + of_nat k)), w'))"

definition Date_now :: "world \<Rightarrow> nat \<times> world" where
  "Date_now w = (clock_ms w (clock_ix w), w\<lparr>clock_ix := Suc (clock_ix w)\<rparr>)"

definition new_Date_toISOString :: "world \<Rightarrow> jsval \<times> world" where
  "new_Date_toISOString w =
     (JStr (clock_iso w (clock_ix w)), w\<lparr>clock_ix := Suc (clock_ix w)\<rparr>)"

definition fetch :: "string \<Rightarrow> jsval \<Rightarrow> world \<Rightarrow> fetch_outcome \<times> world" where
  "fetch url payload w =
     (fetch_replies w (fetch_ix w),
      w\<lparr>fetch_ix := Suc (fetch_ix w), calls := calls w @ [Fetch url payload]\<rparr>)"

definition spawn :: "string \<Rightarrow> jsval list \<Rightarrow> world \<Rightarrow> (proc_outcome \<times> string option) \<times> world" where
  "spawn command args w =
     ((spawn_replies w (spawn_ix w), error_events w (spawn_ix w)),
      w\<lparr>spawn_ix := Suc (spawn_ix w), calls := calls w @ [Spawn command args]\<rparr>)"

fun is_fetch :: "effect \<Rightarrow> bool" where
  "is_fetch (Fetch url payload) = True"
| "is_fetch (Spawn command args) = False"

section \<open>AdvancedAIService\<close>

record ai_service =
  pythonPath :: string
  endpointManagerPath :: string
  cloudFunctionPath :: string
  isInitialized :: bool
  endpointId :: "string option"

definition fallback_issues :: "jsval list" where
  "fallback_issues =
    [JObj [(''type'', JStr ''quality''), (''severity'', JStr ''medium''),
           (''file'', JStr ''example.py''), (''line'', JNum (Fin 42)),
           (''message'', JStr ''Function complexity could be reduced''),
           (''rule'', JStr ''FALLBACK-001''),
           (''suggestion'', JStr ''Consider breaking down complex functions''),
           (''confidence'', JNum (Fin (7 / 10)))],
     JObj [(''type'', JStr ''security''), (''severity'', JStr ''high''),
           (''file'', JStr ''auth.py''), (''line'', JNum (Fin 15)),
           (''message'', JStr ''Potential security vulnerability detected''),
           (''rule'', JStr ''FALLBACK-002''),
           (''suggestion'', JStr ''Review authentication implementation''),
           (''confidence'', JNum (Fin (6 / 10)))]]"

definition getFallbackAnalysis :: "jsval \<Rightarrow> jsobj \<Rightarrow> world \<Rightarrow> jsobj \<times> world" where
  "getFallbackAnalysis repoPath options w0 =
     (let (timestamp, w1) = new_Date_toISOString w0;
          (overall_score, w2) = random_int 20 75 w1;
          (total_files, w3) = random_int 30 20 w2
      in ([(''success'', JBool True),
           (''message'', JStr ''Analysis completed using fallback mode''),
           (''repoPath'', repoPath),
           (''commitHash'', js_or (field options ''commitHash'') (JStr ''HEAD'')),
           (''timestamp'', timestamp),
           (''repository_analysis'',
              JObj [(''overall_score'', overall_score), (''total_files'', total_files),
                    (''risk_level'', JStr ''medium''), (''deployment_ready'', JBool True)]),
           (''issues'', JArr fallback_issues),
           (''recommendations'',
              JArr [JStr ''Enable AI analysis for more comprehensive results'',
                    JStr ''Configure Vertex AI credentials for advanced features'',
                    JStr ''Consider implementing automated testing'']),
           (''summary'', JStr ''Fallback analysis completed. Enable AI for enhanced results.''),
           (''ai_powered'', JBool False),
           (''fallback_mode'', JBool True)], w3))"

text \<open>
  \<^verbatim>\<open>enhanceAnalysisResult\<close> spreads the result, reads the clock, and then reads
  \<^verbatim>\<open>result.repository_analysis?.total_files\<close>, which throws when the result is
  \<^verbatim>\<open>null\<close> or \<^verbatim>\<open>undefined\<close>.
\<close>

definition enhanceAnalysisResult ::
  "ai_service \<Rightarrow> jsval \<Rightarrow> jsobj \<Rightarrow> world \<Rightarrow> (js_error + jsobj) \<times> world" where
  "enhanceAnalysisResult svc result analysisData w0 =
     (let (analysis_timestamp, w1) = new_Date_toISOString w0
      in case get_prop result ''repository_analysis'' of
           Inl e \<Rightarrow> (Inl e, w1)
         | Inr repository_analysis \<Rightarrow>
             (Inr (set_field ''performance_metrics''
                     (JObj [(''analysis_duration'', JStr ''45.2s''),
                            (''files_processed'',
                               js_or (opt_prop repository_analysis ''total_files'') (JNum (Fin 0))),
                            (''ai_confidence'', JNum (Fin (92 / 100))),
                            (''model_version'', JStr ''vertex-ai-code-bison-v2'')])
                  (set_field ''enhanced_metadata''
                     (JObj [(''analysis_timestamp'', analysis_timestamp),
                            (''analysis_method'',
                               if truthy (field analysisData ''useCloudFunction'')
                               then JStr ''cloud_function'' else JStr ''local_endpoint''),
                            (''ai_powered'', JBool True),
                            (''vertex_ai_enabled'', JBool (isInitialized svc)),
                            (''endpoint_id'',
                               case endpointId svc of None \<Rightarrow> JNull | Some i \<Rightarrow> JStr i),
                            (''service_version'', JStr ''2.0.0'')])
                     (spread result))), w1))"

text \<open>
  \<^verbatim>\<open>analyzeWithLocalEndpoint\<close>: the promise rejects only when \<^verbatim>\<open>spawn\<close> itself throws;
  on the close event every branch calls \<^verbatim>\<open>resolve\<close>.
\<close>

definition analyzeWithLocalEndpoint ::
  "ai_service \<Rightarrow> jsobj \<Rightarrow> world \<Rightarrow> (js_error + jsobj) \<times> world" where
  "analyzeWithLocalEndpoint svc analysisData w0 =
     (let ((outcome, error_event), w1) =
            spawn (pythonPath svc)
              [JStr (endpointManagerPath svc), JStr ''--analyze'',
               JStr ''--repo-path'', field analysisData ''repoPath'',
               JStr ''--commit-hash'', field analysisData ''commitHash'',
               JStr ''--format'', JStr ''json''] w0
      in case outcome of
           SpawnThrows m \<Rightarrow> (Inl (Error m), w1)
         | Closed code output \<Rightarrow>
             if code = Some 0 then
               (case JSON_parse w1 output of
                  None \<Rightarrow>
                    (let (r, w2) = getFallbackAnalysis (field analysisData ''repoPath'') analysisData w1
                     in (Inr r, w2))
                | Some result \<Rightarrow>
                    (case enhanceAnalysisResult svc result analysisData w1 of
                       (Inr r, w2) \<Rightarrow> (Inr r, w2)
                     | (Inl parseError, w2) \<Rightarrow>
                         (let (r, w3) =
                                getFallbackAnalysis (field analysisData ''repoPath'') analysisData w2
                          in (Inr r, w3))))
             else
               (let (r, w2) = getFallbackAnalysis (field analysisData ''repoPath'') analysisData w1
                in (Inr r, w2)))"

definition analyzeWithCloudFunction ::
  "ai_service \<Rightarrow> jsobj \<Rightarrow> world \<Rightarrow> (js_error + jsobj) \<times> world" where
  "analyzeWithCloudFunction svc analysisData w0 =
     (case CLOUD_FUNCTION_URL w0 of
        None \<Rightarrow> (Inl (Error ''Cloud Function URL not configured''), w0)
      | Some cloudFunctionUrl \<Rightarrow>
          if cloudFunctionUrl = [] then (Inl (Error ''Cloud Function URL not configured''), w0)
          else
            (let (reply, w1) = fetch cloudFunctionUrl (JObj analysisData) w0
             in case reply of
                  NetworkError m \<Rightarrow> (Inl (Error m), w1)
                | HttpReply st statusText parsed \<Rightarrow>
                    if \<not> response_ok st
                    then (Inl (Error (''Cloud Function request failed: '' @ statusText)), w1)
                    else (case parsed of
                            Inl m \<Rightarrow> (Inl (Error m), w1)
                          | Inr result \<Rightarrow>
                              (case get_prop result ''analysis'' of
                                 Inl e \<Rightarrow> (Inl e, w1)
                               | Inr analysis \<Rightarrow>
                                   enhanceAnalysisResult svc analysis analysisData w1))))"

definition analyzeRepositoryWithAI ::
  "ai_service \<Rightarrow> jsval \<Rightarrow> jsobj \<Rightarrow> world \<Rightarrow> jsobj \<times> world" where
  "analyzeRepositoryWithAI svc repoPath options w0 =
     (if \<not> isInitialized svc then getFallbackAnalysis repoPath options w0
      else
        (let analysisData =
               [(''repoPath'', repoPath),
                (''commitHash'', js_or (field options ''commitHash'') (JStr ''HEAD'')),
                (''analysisType'', js_or (field options ''analysisType'') (JStr ''comprehensive'')),
                (''useCloudFunction'', js_or (field options ''useCloudFunction'') (JBool False))]
         in case (if truthy (field analysisData ''useCloudFunction'')
                  then analyzeWithCloudFunction svc analysisData w0
                  else analyzeWithLocalEndpoint svc analysisData w0) of
              (Inr r, w1) \<Rightarrow> (r, w1)
            | (Inl error, w1) \<Rightarrow> getFallbackAnalysis repoPath options w1))"

section \<open>POST /api/analyze, server with Cloud Function integration\<close>

record http_response =
  status :: nat
  body :: jsval

text \<open>
  The inner \<^verbatim>\<open>try\<close> block of the Cloud Function branch: the request, the check of
  \<^verbatim>\<open>response.ok\<close>, the parse of the body and the object literal built from it. Anything
  thrown here is caught by the inner \<^verbatim>\<open>catch\<close>.
\<close>

definition cloud_function_try ::
  "string \<Rightarrow> jsval \<Rightarrow> jsval \<Rightarrow> jsval \<Rightarrow> world \<Rightarrow> (js_error + jsobj) \<times> world" where
  "cloud_function_try cloudFunctionUrl repoPath commitHash analysisType w0 =
     (let (reply, w1) =
            fetch cloudFunctionUrl
              (JObj [(''repoPath'', repoPath),
                     (''commitHash'', js_or commitHash (JStr ''HEAD'')),
                     (''analysisType'', analysisType)]) w0
      in case reply of
           NetworkError m \<Rightarrow> (Inl (Error m), w1)
         | HttpReply st statusText parsed \<Rightarrow>
             if \<not> response_ok st
             then (Inl (Error (''Cloud Function request failed: '' @ statusText)), w1)
             else
               (case parsed of
                  Inl m \<Rightarrow> (Inl (Error m), w1)
                | Inr cloudResult \<Rightarrow>
                    (case get_prop cloudResult ''status'' of
                       Inl e \<Rightarrow> (Inl e, w1)
                     | Inr cloud_status \<Rightarrow>
                         (let (timestamp, w2) = new_Date_toISOString w1
                          in case get_prop cloudResult ''issues'' of
                               Inl e \<Rightarrow> (Inl e, w2)
                             | Inr cloud_issues \<Rightarrow>
                          (case get_prop cloudResult ''metadata'' of
                               Inl e \<Rightarrow> (Inl e, w2)
                             | Inr cloud_metadata \<Rightarrow>
                          (case get_prop cloudResult ''repository_analysis'' of
                               Inl e \<Rightarrow> (Inl e, w2)
                             | Inr cloud_repository_analysis \<Rightarrow>
                          (let (repository_analysis, w3) =
                                 (if truthy cloud_repository_analysis
                                  then (cloud_repository_analysis, w2)
                                  else
                                    (let (overall_score, w') = random_int 20 80 w2
                                     in (JObj [(''overall_score'', overall_score),
                                               (''total_files'',
                                                  js_or (opt_prop cloud_metadata ''files_analyzed'')
                                                    (JNum (Fin 0))),
                                               (''risk_level'', JStr ''medium''),
                                               (''deployment_ready'', JBool True)], w')))
                           in (Inr [(''success'', JBool (cloud_status = JStr ''success'')),
                                    (''message'', JStr ''Cloud Function analysis completed successfully''),
                                    (''repoPath'', repoPath),
                                    (''commitHash'', commitHash),
                                    (''timestamp'', timestamp),
                                    (''issues'', js_or cloud_issues (JArr [])),
                                    (''metadata'', cloud_metadata),
                                    (''cloud_function_used'', JBool True),
                                    (''repository_analysis'', repository_analysis)], w3))))))))"

text \<open>\<^verbatim>\<open>useCloudFunction && process.env.CLOUD_FUNCTION_URL\<close>: the URL when both are truthy.\<close>

definition cloud_function_selected :: "jsval \<Rightarrow> world \<Rightarrow> string option" where
  "cloud_function_selected useCloudFunction w =
     (if truthy useCloudFunction \<and> env_set (CLOUD_FUNCTION_URL w)
      then CLOUD_FUNCTION_URL w else None)"

text \<open>
  The standard analysis of the last branch (the two-second wait before it is not modelled).
\<close>

definition standard_analysis :: "jsval \<Rightarrow> jsval \<Rightarrow> world \<Rightarrow> jsobj \<times> world" where
  "standard_analysis repoPath commitHash w0 =
     (let (timestamp, w1) = new_Date_toISOString w0;
          (overall_score, w2) = random_int 20 80 w1;
          (total_files, w3) = random_int 20 40 w2
      in ([(''success'', JBool True),
           (''message'', JStr ''Standard analysis completed''),
           (''repoPath'', repoPath),
           (''commitHash'', commitHash),
           (''timestamp'', timestamp),
           (''repository_analysis'',
              JObj [(''overall_score'', overall_score), (''total_files'', total_files),
                    (''risk_level'', JStr ''medium''), (''deployment_ready'', JBool True)]),
           (''ai_powered'', JBool False)], w3))"

text \<open>The body of the outer \<^verbatim>\<open>try\<close> up to the point where \<^verbatim>\<open>analysisResults\<close> is set.\<close>

definition select_analysis ::
  "ai_service \<Rightarrow> jsval \<Rightarrow> jsval \<Rightarrow> jsval \<Rightarrow> jsval \<Rightarrow> jsval \<Rightarrow> world
     \<Rightarrow> (js_error + jsobj) \<times> world" where
  "select_analysis svc repoPath commitHash analysisType useAI useCloudFunction w0 =
     (case cloud_function_selected useCloudFunction w0 of
        Some cloudFunctionUrl \<Rightarrow>
          (case cloud_function_try cloudFunctionUrl repoPath commitHash analysisType w0 of
             (Inr analysisResults, w1) \<Rightarrow> (Inr analysisResults, w1)
           | (Inl cloudError, w1) \<Rightarrow>
               (let (analysisResults, w2) =
                      analyzeRepositoryWithAI svc repoPath
                        [(''commitHash'', commitHash), (''analysisType'', analysisType),
                         (''useCloudFunction'', JBool False)] w1
                in (Inr (set_field ''cloud_function_fallback'' (JBool True) analysisResults), w2)))
      | None \<Rightarrow>
          if truthy useAI then
            (let (analysisResults, w1) =
                   analyzeRepositoryWithAI svc repoPath
                     [(''commitHash'', commitHash), (''analysisType'', analysisType),
                      (''useCloudFunction'', JBool False)] w0
             in (Inr analysisResults, w1))
          else
            (let (analysisResults, w1) = standard_analysis repoPath commitHash w0
             in (Inr analysisResults, w1)))"

definition analyze_handler :: "ai_service \<Rightarrow> jsobj \<Rightarrow> world \<Rightarrow> http_response \<times> world" where
  "analyze_handler svc req_body w0 =
     (let repoPath = field req_body ''repoPath'';
          commitHash = field req_body ''commitHash'';
          analysisType = default_to (field req_body ''analysisType'') (JStr ''comprehensive'');
          useAI = default_to (field req_body ''useAI'') (JBool True);
          useCloudFunction = default_to (field req_body ''useCloudFunction'') (JBool False)
      in case select_analysis svc repoPath commitHash analysisType useAI useCloudFunction w0 of
           (Inr analysisResults, w1) \<Rightarrow>
             (let (now, w2) = Date_now w1
              in (\<lparr>status = 200,
                   body = JObj (set_field ''request_metadata''
                            (JObj [(''analysis_type'', analysisType),
                                   (''ai_enabled'', useAI),
                                   (''cloud_function_enabled'', useCloudFunction),
                                   (''processing_time'', JStr ''45.2s''),
                                   (''request_id'', JStr (''req_'' @ dec now)),
                                   (''api_version'', JStr ''2.1.0'')])
                            analysisResults)\<rparr>, w2))
         | (Inl error, w1) \<Rightarrow>
             (let (timestamp, w2) = new_Date_toISOString w1
              in (\<lparr>status = 500,
                   body = JObj [(''success'', JBool False),
                                (''message'', JStr ''Analysis failed''),
                                (''error'', JStr (error_message error)),
                                (''repoPath'', repoPath),
                                (''commitHash'', commitHash),
                                (''timestamp'', timestamp),
                                (''fallback_available'', JBool True)]\<rparr>, w2)))"

section \<open>AIAnalysisService and the POST /api/analyze of the basic server\<close>





section \<open>Reading a response\<close>



text \<open>The network calls among the backend calls made so far.\<close>

definition fetches :: "world \<Rightarrow> effect list" where
  "fetches w = filter is_fetch (calls w)"

text \<open>The \<^verbatim>\<open>type\<close> and \<^verbatim>\<open>severity\<close> of each issue of a result, in order.\<close>

definition issue_categories :: "jsobj \<Rightarrow> (jsval \<times> jsval) list" where
  "issue_categories res =
     (case field res ''issues'' of
        JArr xs \<Rightarrow> map (\<lambda>i. (opt_prop i ''type'', opt_prop i ''severity'')) xs
      | _ \<Rightarrow> [])"

text \<open>\<^verbatim>\<open>result.repository_analysis.overall_score\<close>\<close>

definition overall_score_of :: "jsobj \<Rightarrow> jsval" where
  "overall_score_of res = opt_prop (field res ''repository_analysis'') ''overall_score''"

section \<open>Concrete services, worlds and requests\<close>

text \<open>
  The service as its constructor leaves it (not initialized, no endpoint), and the same
  service after a successful \<^verbatim>\<open>initialize()\<close>.
\<close>

definition new_service :: ai_service where
  "new_service =
     \<lparr>pythonPath = ''python3'',
      endpointManagerPath = ''/app/python/vertex_ai_endpoint_manager.py'',
      cloudFunctionPath = ''/app/python/cloud_function_analyzer.py'',
      isInitialized = False, endpointId = None\<rparr>"



text \<open>
  A world with no Cloud Function URL and no credentials, in which \<^verbatim>\<open>Math.random()\<close>
  returns 0 and then 1/2 for ever, every fetch fails, and every child exits with status 1.
\<close>

definition bare_world :: world where
  "bare_world =
     \<lparr>CLOUD_FUNCTION_URL = None, GOOGLE_APPLICATION_CREDENTIALS = None,
      random_values = (\<lambda>n. if n = 0 then 0 else 1 / 2), random_ix = 0,
      clock_ms = (\<lambda>n. 1000 + n), clock_iso = (\<lambda>n. ''2024-01-01T00:00:00.000Z''),
      clock_ix = 0,
      fetch_replies = (\<lambda>n. NetworkError ''fetch failed''), fetch_ix = 0,
      spawn_replies = (\<lambda>n. Closed (Some 1) []), error_events = (\<lambda>n. None), spawn_ix = 0,
      JSON_parse = (\<lambda>s. None), calls = []\<rparr>"



text \<open>Requests used below.\<close>

definition cloud_request :: jsobj where
  "cloud_request = [(''repoPath'', JStr ''/tmp/x''), (''useCloudFunction'', JBool True)]"






section \<open>Properties of GET /api/issues\<close>

lemma set_insert_by: "set (insert_by cmp x xs) = insert x (set xs)"
  by (induction xs) auto

lemma compare_issues_neg: "compare_issues a b < 0 \<Longrightarrow> issue_before a b"
  by (auto simp: compare_issues_def issue_before_def confidence_or_0_def split: if_splits)

lemma compare_issues_nonneg: "\<not> compare_issues a b < 0 \<Longrightarrow> issue_before b a"
  by (auto simp: compare_issues_def issue_before_def confidence_or_0_def split: if_splits)

lemma issue_before_trans: "issue_before a b \<Longrightarrow> issue_before b c \<Longrightarrow> issue_before a c"
  by (auto simp: issue_before_def)

lemma sorted_insert_by:
  "sorted_wrt issue_before xs \<Longrightarrow> sorted_wrt issue_before (insert_by compare_issues x xs)"
proof (induction xs)
  case Nil
  then show ?case by simp
next
  case (Cons y ys)
  show ?case
  proof (cases "compare_issues x y < 0")
    case True
    then have xy: "issue_before x y" by (rule compare_issues_neg)
    have "\<forall>z\<in>set ys. issue_before x z"
      using Cons.prems xy by (auto intro: issue_before_trans)
    with True xy Cons.prems show ?thesis by simp
  next
    case False
    then have yx: "issue_before y x" by (rule compare_issues_nonneg)
    with False Cons show ?thesis by (auto simp: set_insert_by)
  qed
qed

lemma sorted_foldl_insert:
  "sorted_wrt issue_before acc \<Longrightarrow>
   sorted_wrt issue_before (foldl (\<lambda>acc x. insert_by compare_issues x acc) acc xs)"
  by (induction xs arbitrary: acc) (auto intro: sorted_insert_by)

lemma sorted_js_sort: "sorted_wrt issue_before (js_sort compare_issues xs)"
  unfolding js_sort_def by (rule sorted_foldl_insert) simp

text \<open>
  C7. For every query of GET /api/issues, in the server with Cloud Function integration and
  in the server with the advanced AI service, the \<^verbatim>\<open>issues\<close> array of the response is
  ordered by ascending \<^verbatim>\<open>remediation_priority\<close>, and among equal priorities by descending
  \<^verbatim>\<open>confidence\<close>: every issue stands in \<open>issue_before\<close> to every issue after it.
\<close>

theorem issues_sorted_by_priority_then_confidence:
  "sorted_wrt issue_before (issues (get_issues_enhanced q)) \<and>
   sorted_wrt issue_before (issues (get_issues_advanced q))"
  by (simp add: get_issues_enhanced_def get_issues_advanced_def Let_def sorted_js_sort)

text \<open>
  C10. When the filters of a query leave no issue of the fixed set, the response still has
  \<^verbatim>\<open>issues: []\<close> and \<^verbatim>\<open>total_issues: 0\<close>, and \<^verbatim>\<open>avg_confidence\<close> is the sum over the empty
  list divided by its length, zero by zero: NaN, which JSON shows as \<^verbatim>\<open>null\<close>.
\<close>

theorem empty_filter_avg_confidence_nan:
  "(enhanced_filtered q = [] \<longrightarrow>
      issues (get_issues_enhanced q) = [] \<and>
      total_issues (metadata (get_issues_enhanced q)) = 0 \<and>
      avg_confidence (metadata (get_issues_enhanced q)) = NaN \<and>
      json_number (avg_confidence (metadata (get_issues_enhanced q))) = JNull) \<and>
   (advanced_filtered q = [] \<longrightarrow>
      issues (get_issues_advanced q) = [] \<and>
      total_issues (metadata (get_issues_advanced q)) = 0 \<and>
      avg_confidence (metadata (get_issues_advanced q)) = NaN \<and>
      json_number (avg_confidence (metadata (get_issues_advanced q))) = JNull)"
  by (simp add: get_issues_enhanced_def get_issues_advanced_def Let_def js_sort_def
      sum_confidence_def js_div_def)

theorem empty_filter_avg_confidence_nan_witness:
  "enhanced_filtered
     \<lparr>q_type = QString ''style'', q_severity = QAbsent, q_ai_only = QAbsent,
      q_cloud_function_only = QAbsent\<rparr> = [] \<and>
   advanced_filtered
     \<lparr>q_type = QString ''style'', q_severity = QAbsent, q_ai_only = QAbsent,
      q_cloud_function_only = QAbsent\<rparr> = [] \<and>
   json_number (avg_confidence (metadata (get_issues_enhanced
     \<lparr>q_type = QString ''style'', q_severity = QAbsent, q_ai_only = QAbsent,
      q_cloud_function_only = QAbsent\<rparr>))) = JNull \<and>
   json_number (avg_confidence (metadata (get_issues_advanced
     \<lparr>q_type = QString ''style'', q_severity = QAbsent, q_ai_only = QAbsent,
      q_cloud_function_only = QAbsent\<rparr>))) = JNull"
  using empty_filter_avg_confidence_nan
    [of "\<lparr>q_type = QString ''style'', q_severity = QAbsent, q_ai_only = QAbsent,
          q_cloud_function_only = QAbsent\<rparr>"]
  by (simp add: enhanced_filtered_def advanced_filtered_def enhanced_issues_def
      advanced_issues_def filter_by_type_def filter_by_severity_def filter_ai_only_def
      filter_cloud_function_only_def)

section \<open>Properties of POST /api/analyze\<close>






lemma fetches_clock [simp]: "fetches (snd (new_Date_toISOString w)) = fetches w"
  by (simp add: new_Date_toISOString_def fetches_def)

lemma fetches_now [simp]: "fetches (snd (Date_now w)) = fetches w"
  by (simp add: Date_now_def fetches_def)

lemma fetches_random_int [simp]: "fetches (snd (random_int n k w)) = fetches w"
  by (simp add: random_int_def Math_random_def fetches_def)

lemma fetches_spawn [simp]: "fetches (snd (spawn c args w)) = fetches w"
  by (simp add: spawn_def fetches_def)

lemma fetches_getFallbackAnalysis [simp]:
  "fetches (snd (getFallbackAnalysis rp opts w)) = fetches w"
  by (simp add: getFallbackAnalysis_def Let_def split: prod.splits)
     (metis fetches_clock fetches_random_int snd_conv)

lemma fetches_enhanceAnalysisResult [simp]:
  "fetches (snd (enhanceAnalysisResult svc result ad w)) = fetches w"
  by (simp add: enhanceAnalysisResult_def Let_def new_Date_toISOString_def fetches_def
      split: prod.splits sum.splits)

lemma fetches_analyzeWithLocalEndpoint [simp]:
  "fetches (snd (analyzeWithLocalEndpoint svc ad w)) = fetches w"
proof -
  have a: "\<And>rp opts w r w'. getFallbackAnalysis rp opts w = (r, w') \<Longrightarrow> fetches w' = fetches w"
    by (metis fetches_getFallbackAnalysis snd_conv)
  have b: "\<And>result w r w'. enhanceAnalysisResult svc result ad w = (r, w') \<Longrightarrow> fetches w' = fetches w"
    by (metis fetches_enhanceAnalysisResult snd_conv)
  have c: "\<And>c args w r w'. spawn c args w = (r, w') \<Longrightarrow> fetches w' = fetches w"
    by (metis fetches_spawn snd_conv)
  show ?thesis
    by (auto simp: analyzeWithLocalEndpoint_def Let_def
        split: prod.splits proc_outcome.splits option.splits sum.splits dest!: a b c)
qed

lemma local_options_not_cloud:
  "truthy (field [(''repoPath'', rp),
      (''commitHash'', js_or (field [(''commitHash'', ch), (''analysisType'', aty), (''useCloudFunction'', JBool False)] ''commitHash'') (JStr ''HEAD'')),
      (''analysisType'', js_or (field [(''commitHash'', ch), (''analysisType'', aty), (''useCloudFunction'', JBool False)] ''analysisType'') (JStr ''comprehensive'')),
      (''useCloudFunction'', js_or (field [(''commitHash'', ch), (''analysisType'', aty), (''useCloudFunction'', JBool False)] ''useCloudFunction'') (JBool False))]
     ''useCloudFunction'') = False"
  by (simp add: field_def js_or_def)

lemma fetches_analyzeRepositoryWithAI_local [simp]:
  "fetches (snd (analyzeRepositoryWithAI svc rp
      [(''commitHash'', ch), (''analysisType'', aty), (''useCloudFunction'', JBool False)] w)) = fetches w"
proof -
  have a: "\<And>rp opts w r w'. getFallbackAnalysis rp opts w = (r, w') \<Longrightarrow> fetches w' = fetches w"
    by (metis fetches_getFallbackAnalysis snd_conv)
  have b: "\<And>ad w r w'. analyzeWithLocalEndpoint svc ad w = (r, w') \<Longrightarrow> fetches w' = fetches w"
    by (metis fetches_analyzeWithLocalEndpoint snd_conv)
  show ?thesis
    unfolding analyzeRepositoryWithAI_def Let_def local_options_not_cloud
    by (auto split: prod.splits sum.splits dest!: a b)
qed

lemma fetches_standard_analysis [simp]:
  "fetches (snd (standard_analysis rp ch w)) = fetches w"
  by (simp add: standard_analysis_def Let_def split: prod.splits)
     (metis fetches_clock fetches_random_int snd_conv)

lemma select_analysis_no_url:
  assumes "\<not> env_set (CLOUD_FUNCTION_URL w)"
  shows "select_analysis svc rp ch aty ua uc w =
     (if truthy ua
      then (let (analysisResults, w1) =
                  analyzeRepositoryWithAI svc rp
                    [(''commitHash'', ch), (''analysisType'', aty),
                     (''useCloudFunction'', JBool False)] w
            in (Inr analysisResults, w1))
      else (let (analysisResults, w1) = standard_analysis rp ch w
            in (Inr analysisResults, w1)))"
  using assms by (simp add: select_analysis_def cloud_function_selected_def)

lemma analyze_handler_world:
  assumes "select_analysis svc (field req_body ''repoPath'') (field req_body ''commitHash'')
       (default_to (field req_body ''analysisType'') (JStr ''comprehensive''))
       (default_to (field req_body ''useAI'') (JBool True))
       (default_to (field req_body ''useCloudFunction'') (JBool False)) w = (Inr r, w')"
  shows "snd (analyze_handler svc req_body w) = snd (Date_now w')"
  using assms by (simp add: analyze_handler_def Let_def split: prod.splits)

text \<open>
  C6. When a request sets \<^verbatim>\<open>useCloudFunction\<close> to a truthy value and no Cloud Function
  URL is configured, handling it adds no network call to the ones made before, and the
  analysis is chosen as if the flag were off: the local AI analysis
  (\<^verbatim>\<open>analyzeRepositoryWithAI\<close> with \<^verbatim>\<open>useCloudFunction: false\<close>) when \<^verbatim>\<open>useAI\<close> is truthy,
  the standard analysis otherwise.
\<close>

theorem no_url_no_network_call:
  assumes "truthy (default_to (field req_body ''useCloudFunction'') (JBool False))"
    and "\<not> env_set (CLOUD_FUNCTION_URL w)"
  shows "fetches (snd (analyze_handler svc req_body w)) = fetches w \<and>
    select_analysis svc (field req_body ''repoPath'') (field req_body ''commitHash'')
       (default_to (field req_body ''analysisType'') (JStr ''comprehensive''))
       (default_to (field req_body ''useAI'') (JBool True))
       (default_to (field req_body ''useCloudFunction'') (JBool False)) w =
     (if truthy (default_to (field req_body ''useAI'') (JBool True))
      then (let (analysisResults, w1) =
                  analyzeRepositoryWithAI svc (field req_body ''repoPath'')
                    [(''commitHash'', field req_body ''commitHash''),
                     (''analysisType'',
                        default_to (field req_body ''analysisType'') (JStr ''comprehensive'')),
                     (''useCloudFunction'', JBool False)] w
            in (Inr analysisResults, w1))
      else (let (analysisResults, w1) =
                  standard_analysis (field req_body ''repoPath'') (field req_body ''commitHash'') w
            in (Inr analysisResults, w1)))"
proof -
  let ?rp = "field req_body ''repoPath''"
  let ?ch = "field req_body ''commitHash''"
  let ?aty = "default_to (field req_body ''analysisType'') (JStr ''comprehensive'')"
  let ?ua = "default_to (field req_body ''useAI'') (JBool True)"
  let ?uc = "default_to (field req_body ''useCloudFunction'') (JBool False)"
  note sel = select_analysis_no_url[OF assms(2), of svc ?rp ?ch ?aty ?ua ?uc]
  have "fetches (snd (analyze_handler svc req_body w)) = fetches w"
  proof (cases "truthy ?ua")
    case True
    obtain r w1 where r: "analyzeRepositoryWithAI svc ?rp
        [(''commitHash'', ?ch), (''analysisType'', ?aty), (''useCloudFunction'', JBool False)] w = (r, w1)"
      by (cases "analyzeRepositoryWithAI svc ?rp
        [(''commitHash'', ?ch), (''analysisType'', ?aty), (''useCloudFunction'', JBool False)] w")
    then have "fetches w1 = fetches w"
      by (metis fetches_analyzeRepositoryWithAI_local snd_conv)
    moreover have "select_analysis svc ?rp ?ch ?aty ?ua ?uc w = (Inr r, w1)"
      using sel True r by simp
    ultimately show ?thesis
      by (simp add: analyze_handler_world)
  next
    case False
    obtain r w1 where r: "standard_analysis ?rp ?ch w = (r, w1)"
      by (cases "standard_analysis ?rp ?ch w")
    then have "fetches w1 = fetches w"
      by (metis fetches_standard_analysis snd_conv)
    moreover have "select_analysis svc ?rp ?ch ?aty ?ua ?uc w = (Inr r, w1)"
      using sel False r by simp
    ultimately show ?thesis
      by (simp add: analyze_handler_world)
  qed
  with sel show ?thesis by simp
qed

theorem no_url_no_network_call_witness:
  "truthy (default_to (field cloud_request ''useCloudFunction'') (JBool False)) \<and>
   \<not> env_set (CLOUD_FUNCTION_URL bare_world) \<and>
   fetches (snd (analyze_handler new_service cloud_request bare_world)) = fetches bare_world"
  using no_url_no_network_call [of cloud_request bare_world new_service]
  by (simp add: cloud_request_def bare_world_def field_def default_to_def env_set_def)


lemma random_ix_clock [simp]:
  "random_ix (snd (new_Date_toISOString w)) = random_ix w"
  "random_values (snd (new_Date_toISOString w)) = random_values w"
  by (simp_all add: new_Date_toISOString_def)






lemmas world_ops = new_Date_toISOString_def random_int_def Math_random_def Date_now_def
  fetch_def spawn_def

text \<open>
  C8. Two consecutive calls of the deterministic fallback with the same request give issue
  lists with the same \<^verbatim>\<open>type\<close> and \<^verbatim>\<open>severity\<close> at each position, in the same order
  (quality/medium, then security/high), whatever the clock and \<^verbatim>\<open>Math.random()\<close> return;
  the numeric scores may differ, as they do in the world where \<^verbatim>\<open>Math.random()\<close> returns
  0 and then 1/2: 75 in the first call, 85 in the second.
\<close>

theorem fallback_issue_categories_stable:
  "issue_categories (fst (getFallbackAnalysis repoPath options w)) =
     [(JStr ''quality'', JStr ''medium''), (JStr ''security'', JStr ''high'')] \<and>
   issue_categories
     (fst (getFallbackAnalysis repoPath options (snd (getFallbackAnalysis repoPath options w)))) =
   issue_categories (fst (getFallbackAnalysis repoPath options w)) \<and>
   overall_score_of (fst (getFallbackAnalysis (JStr ''/tmp/x'') [] bare_world)) = JNum (Fin 75) \<and>
   overall_score_of
     (fst (getFallbackAnalysis (JStr ''/tmp/x'') []
            (snd (getFallbackAnalysis (JStr ''/tmp/x'') [] bare_world)))) = JNum (Fin 85)"
proof -
  have cat: "\<And>rp opts w. issue_categories (fst (getFallbackAnalysis rp opts w)) =
     [(JStr ''quality'', JStr ''medium''), (JStr ''security'', JStr ''high'')]"
    by (simp add: getFallbackAnalysis_def issue_categories_def fallback_issues_def Let_def
        field_def split: prod.splits)
  have s1: "overall_score_of (fst (getFallbackAnalysis (JStr ''/tmp/x'') [] bare_world)) = JNum (Fin 75)"
    by (simp add: getFallbackAnalysis_def overall_score_of_def Let_def field_def bare_world_def
        world_ops split: prod.splits)
  have s2: "overall_score_of
     (fst (getFallbackAnalysis (JStr ''/tmp/x'') []
            (snd (getFallbackAnalysis (JStr ''/tmp/x'') [] bare_world)))) = JNum (Fin 85)"
    by (simp add: getFallbackAnalysis_def overall_score_of_def Let_def field_def bare_world_def
        world_ops split: prod.splits)
  show ?thesis using cat s1 s2 by simp
qed



























end
